theory Spec2Isabelle
  imports Complex_Main
begin

section \<open>String primitives of the source language\<close>

text \<open>
  The server is written in TypeScript. A string is modelled as a list of characters; the
  three string methods the code uses work position by position, so they are the same
  functions on a list of code units.
\<close>

text \<open>\<^verbatim>\<open>s.endsWith(suf)\<close>\<close>

definition endsWith :: "string \<Rightarrow> string \<Rightarrow> bool" where
  "endsWith s suf \<longleftrightarrow>
     length suf \<le> length s \<and> drop (length s - length suf) s = suf"

text \<open>
  \<^verbatim>\<open>s.includes(sub)\<close>: \<open>sub\<close> occurs at some position of \<open>s\<close>. (The name \<open>includes\<close> is
  reserved in Isabelle, like \<open>file\<close> and \<open>notes\<close> below.)
\<close>

fun includes_str :: "string \<Rightarrow> string \<Rightarrow> bool" where
  "includes_str [] sub \<longleftrightarrow> sub = []"
| "includes_str (c # cs) sub \<longleftrightarrow> take (length sub) (c # cs) = sub \<or> includes_str cs sub"

text \<open>\<^verbatim>\<open>s.slice(0, -n)\<close>: the string without its last \<open>n\<close> code units (empty when shorter).\<close>

definition slice_end :: "string \<Rightarrow> nat \<Rightarrow> string" where
  "slice_end s n = take (length s - n) s"

section \<open>Platform classifier\<close>

text \<open>
  \<^verbatim>\<open>
  function determinePlatform(filename: string): string {
    if (filename.endsWith('.sig')) {
      return determinePlatform(filename.slice(0, -4));
    } else if (filename.endsWith('.AppImage')) {
      return 'linux-x86_64';
    } else if (filename.endsWith('.msi')) {
      if (filename.includes('arm64')) { return 'windows-aarch64'; }
      return 'windows-x86_64';
    } else if (filename.endsWith('_intel.app.tar.gz')) {
      return 'darwin-x86_64';
    } else if (filename.endsWith('_silicon.app.tar.gz')) {
      return 'darwin-aarch64';
    }
    return 'unknown';
  }
  \<close>
  The recursion is on a strictly shorter string, so the function is total.
\<close>

function determinePlatform :: "string \<Rightarrow> string" where
  "determinePlatform filename =
     (if endsWith filename ''.sig'' then determinePlatform (slice_end filename 4)
      else if endsWith filename ''.AppImage'' then ''linux-x86_64''
      else if endsWith filename ''.msi'' then
        (if includes_str filename ''arm64'' then ''windows-aarch64'' else ''windows-x86_64'')
      else if endsWith filename ''_intel.app.tar.gz'' then ''darwin-x86_64''
      else if endsWith filename ''_silicon.app.tar.gz'' then ''darwin-aarch64''
      else ''unknown'')"
  by pat_completeness auto
termination
  by (relation "measure length") (auto simp: endsWith_def slice_end_def)

declare determinePlatform.simps [simp del]

section \<open>Configuration and data model\<close>

text \<open>
  \<^verbatim>\<open>config.yml\<close> gives the two repositories and one flag per platform. A flag is
  \<open>true\<close>, \<open>false\<close> or absent; the code tests each with \<^verbatim>\<open>!== false\<close>, so an absent
  flag counts as enabled.
\<close>

record enabled_platforms_cfg =
  linux :: "bool option"
  windows_x86 :: "bool option"
  windows_arm64 :: "bool option"
  macos_intel :: "bool option"
  macos_silicon :: "bool option"

record config =
  release_repo :: string
  archive_repo :: string
  enabled_platforms :: enabled_platforms_cfg

text \<open>
  \<^verbatim>\<open>
  const ENABLED_PLATFORMS = {
    'linux-x86_64': config.enabled_platforms.linux !== false,
    'windows-x86_64': config.enabled_platforms.windows_x86 !== false,
    'windows-aarch64': config.enabled_platforms.windows_arm64 !== false,
    'darwin-x86_64': config.enabled_platforms.macos_intel !== false,
    'darwin-aarch64': config.enabled_platforms.macos_silicon !== false,
  };
  \<close>
  An object literal keeps its string keys in insertion order, which is the order
  \<^verbatim>\<open>Object.entries\<close> returns: the object is an association list.
\<close>

definition ENABLED_PLATFORMS :: "config \<Rightarrow> (string \<times> bool) list" where
  "ENABLED_PLATFORMS cfg =
     [(''linux-x86_64'', linux (enabled_platforms cfg) \<noteq> Some False),
      (''windows-x86_64'', windows_x86 (enabled_platforms cfg) \<noteq> Some False),
      (''windows-aarch64'', windows_arm64 (enabled_platforms cfg) \<noteq> Some False),
      (''darwin-x86_64'', macos_intel (enabled_platforms cfg) \<noteq> Some False),
      (''darwin-aarch64'', macos_silicon (enabled_platforms cfg) \<noteq> Some False)]"

text \<open>The keys of that object literal, in the order they are written.\<close>

definition declared_order :: "string list" where
  "declared_order = [''linux-x86_64'', ''windows-x86_64'', ''windows-aarch64'',
      ''darwin-x86_64'', ''darwin-aarch64'']"

text \<open>\<^verbatim>\<open>ENABLED_PLATFORMS[platformKey]\<close> as a condition: a missing key is undefined, hence false.\<close>

definition platform_enabled :: "config \<Rightarrow> string \<Rightarrow> bool" where
  "platform_enabled cfg k \<longleftrightarrow> map_of (ENABLED_PLATFORMS cfg) k = Some True"

text \<open>
  \<^verbatim>\<open>interface File { name: string; url: string; }\<close>; the field \<open>url\<close> is \<open>file_url\<close> here,
  to keep it apart from the \<open>url\<close> of a platform entry.
\<close>

record File =
  name :: string
  file_url :: string

text \<open>
  A value that came out of \<^verbatim>\<open>JSON.parse\<close>, or a string. The HTTP client parses a response
  body that is JSON text before handing it over as \<^verbatim>\<open>response.data\<close>, and hands any other
  body over as a string; so the value the code stores as a signature is a string for the
  signature files the updater produces, but can be any JSON value.
\<close>

datatype json =
  JNull | JBoolean bool | JNumber rat | JString string
  | JArray "json list" | JObject "(string \<times> json) list"

text \<open>Truthiness, as \<^verbatim>\<open>||\<close> tests it.\<close>

fun truthy :: "json \<Rightarrow> bool" where
  "truthy JNull \<longleftrightarrow> False"
| "truthy (JBoolean b) \<longleftrightarrow> b"
| "truthy (JNumber q) \<longleftrightarrow> q \<noteq> 0"
| "truthy (JString s) \<longleftrightarrow> s \<noteq> []"
| "truthy (JArray xs) \<longleftrightarrow> True"
| "truthy (JObject kvs) \<longleftrightarrow> True"

text \<open>
  An entry of \<^verbatim>\<open>platformFiles\<close>: \<^verbatim>\<open>{ signature: string; url: string; }\<close>. The type of
  \<open>signature\<close> is what the compiler is told; at run time it holds \<^verbatim>\<open>''\<close> or what
  \<^verbatim>\<open>fetchSignature\<close> returned.
\<close>

record platform_file =
  signature :: json
  url :: string

text \<open>
  A platform descriptor of the manifest is \<^verbatim>\<open>platformFiles[key] || {}\<close>: a registered
  entry or the empty object.
\<close>

datatype descriptor = EmptyObject | PlatformFile platform_file

text \<open>
  The manifest \<^verbatim>\<open>{ version, notes, pub_date, platforms }\<close> (\<open>notes\<close> is \<open>release_notes\<close>
  here); \<open>platforms\<close> is built by \<^verbatim>\<open>Object.fromEntries\<close> and keeps the order of the entries.
\<close>

record manifest =
  version :: string
  release_notes :: string
  pub_date :: string
  platforms :: "(string \<times> descriptor) list"

text \<open>
  The content of the cache (in memory or in \<^verbatim>\<open>./cache/data.json\<close>): the empty object
  \<^verbatim>\<open>{}\<close> that \<^verbatim>\<open>ensureFileExists\<close> writes, or a manifest written by an earlier cycle.
\<close>

datatype cache_data = EmptyCache | Manifest manifest

text \<open>An entry of the release list, with the two fields the code reads.\<close>

record release =
  tag_name :: string
  published_at :: string

text \<open>
  \<^verbatim>\<open>
  interface ETagData {
    releases: string;
    archives?: { [tag: string]: string };
    signatures?: { [url: string]: string };
    lastFetchTime?: number;
  }
  \<close>
  The object is parsed from \<^verbatim>\<open>./cache/etag.json\<close>, which starts as \<^verbatim>\<open>{}\<close>, so every
  field can be undefined (\<open>None\<close>). \<open>lastFetchTime\<close> exists in the variant of the server
  with the minimum fetch interval only.
\<close>

record etag_data =
  releases :: "string option"
  archives :: "(string \<rightharpoonup> string) option"
  signatures :: "(string \<rightharpoonup> string) option"
  lastFetchTime :: "int option"

text \<open>\<^verbatim>\<open>token || ''\<close>: an undefined token is sent as the empty header value.\<close>

definition or_empty :: "string option \<Rightarrow> string" where
  "or_empty t = (case t of None \<Rightarrow> [] | Some s \<Rightarrow> s)"

text \<open>\<^verbatim>\<open>tokens?.[key] || ''\<close> on an optional token object.\<close>

definition token_of :: "(string \<rightharpoonup> string) option \<Rightarrow> string \<Rightarrow> string" where
  "token_of m k = (case m of None \<Rightarrow> [] | Some t \<Rightarrow> or_empty (t k))"

text \<open>\<^verbatim>\<open>if (!etagData.archives) etagData.archives = {}\<close>\<close>

definition or_object :: "(string \<rightharpoonup> string) option \<Rightarrow> (string \<rightharpoonup> string)" where
  "or_object m = (case m of None \<Rightarrow> Map.empty | Some t \<Rightarrow> t)"

section \<open>Upstream and the process state\<close>

text \<open>
  What the hosting API answers to a GET: nothing (a network error), or a response with a
  status, an optional \<open>etag\<close> header and a body.
\<close>

datatype 'a reply = NoResponse | Response nat "string option" 'a

text \<open>
  The three endpoints, each a function of the \<^verbatim>\<open>If-None-Match\<close> header sent: the release
  list, the directory listing of a tag (the names of its files), and the raw content of
  a URL, as the HTTP client delivers it in \<^verbatim>\<open>response.data\<close>. The signature requests of a
  run are in flight together; \<open>latency\<close> gives, for the URL of each, the time its answer
  takes, which fixes the order in which the answers arrive.
\<close>

record upstream =
  releases_api :: "string \<Rightarrow> release list reply"
  contents_api :: "string \<Rightarrow> string \<Rightarrow> string list reply"
  raw_api :: "string \<Rightarrow> string \<Rightarrow> json reply"
  latency :: "string \<Rightarrow> nat"

text \<open>The upstream requests a run issues, in order, each with the validator token it sent.\<close>

datatype call = ReleasesCall string | ContentsCall string string | RawCall string string

text \<open>
  What the code can throw: an error of the HTTP client, with the status of the response
  when there was one, or the TypeError of reading a property of \<^verbatim>\<open>undefined\<close>.
\<close>

datatype error = AxiosError "nat option" | TypeError

text \<open>
  The state outside a request: the in-memory cache entries \<^verbatim>\<open>cacheData\<close> and
  \<^verbatim>\<open>etagData\<close> (absent until set), the two JSON files as the values they parse to, and the
  log of upstream requests. The hit and fetch counters and the console output influence
  neither the reply nor the validators and are left out; writes to local files are taken
  to succeed.
\<close>

record world =
  mem_cacheData :: "cache_data option"
  mem_etagData :: "etag_data option"
  CACHE_FILE :: cache_data
  ETAG_FILE :: etag_data
  calls :: "call list"

text \<open>
  \<^verbatim>\<open>cache.get('cacheData') || JSON.parse(await readFileAsync(CACHE_FILE, ...))\<close>:
  every cached value is an object, hence truthy.
\<close>

definition cached :: "world \<Rightarrow> cache_data" where
  "cached w = (case mem_cacheData w of Some d \<Rightarrow> d | None \<Rightarrow> CACHE_FILE w)"

text \<open>\<^verbatim>\<open>validateStatus: (status) => status >= 200 && status < 300 || status === 304\<close>\<close>

definition validateStatus :: "nat \<Rightarrow> bool" where
  "validateStatus st \<longleftrightarrow> (200 \<le> st \<and> st < 300) \<or> st = 304"

text \<open>
  \<^verbatim>\<open>axios.get\<close> with that \<^verbatim>\<open>validateStatus\<close>: it resolves with the response when the
  status is accepted and throws otherwise; the error carries the response when there is
  one.
\<close>

definition axios_get :: "'a reply \<Rightarrow> error + (nat \<times> string option \<times> 'a)" where
  "axios_get r =
     (case r of
        NoResponse \<Rightarrow> Inl (AxiosError None)
      | Response st et d \<Rightarrow>
          if validateStatus st then Inr (st, et, d) else Inl (AxiosError (Some st)))"

definition log_call :: "call \<Rightarrow> world \<Rightarrow> world" where
  "log_call c w = w\<lparr>calls := calls w @ [c]\<rparr>"

section \<open>Signature fetch\<close>

text \<open>\<^verbatim>\<open>url.split('/').pop() || ''\<close>: the part of the URL after its last slash.\<close>

definition last_segment :: "string \<Rightarrow> string" where
  "last_segment u = rev (takeWhile (\<lambda>c. c \<noteq> CHR ''/'') (rev u))"

text \<open>\<^verbatim>\<open>cacheData?.platforms?.[platformKey]?.signature || ''\<close>\<close>

definition cached_signature :: "cache_data \<Rightarrow> string \<Rightarrow> json" where
  "cached_signature d k =
     (case d of
        EmptyCache \<Rightarrow> JString []
      | Manifest m \<Rightarrow>
          (case map_of (platforms m) k of
             Some (PlatformFile a) \<Rightarrow> if truthy (signature a) then signature a else JString []
           | _ \<Rightarrow> JString []))"

text \<open>
  \<^verbatim>\<open>
  async function fetchSignature(url: string, etagData: ETagData): Promise<string> {
    try {
      const response = await axios.get(url, {
        headers: { 'If-None-Match': etagData.signatures?.[url] || '' }, validateStatus: ... });
      if (response.status === 304) {
        const cacheData = cache.get('cacheData') || JSON.parse(await readFileAsync(CACHE_FILE, ...));
        const platformKey = determinePlatform(url.split('/').pop() || '');
        return cacheData?.platforms?.[platformKey]?.signature || '';
      }
      if (!etagData.signatures) etagData.signatures = {};
      etagData.signatures[url] = response.headers.etag;
      return response.data;
    } catch (error) { return ''; }
  }
  \<close>
  The function stops at \<^verbatim>\<open>await axios.get\<close> and goes on when the answer arrives, and other
  code runs in between. So it is modelled in its two halves. \<open>fetchSignature_send\<close> is the
  part up to the \<^verbatim>\<open>await\<close>: it reads the token and issues the request.
  \<open>fetchSignature_resume\<close> is the part after it, given the URL and the token that was
  sent: it returns the signature and the validator object as it leaves it. Storing an
  undefined header under a key is the same as leaving the key out, for every later read
  \<^verbatim>\<open>|| ''\<close> and for the JSON written.
\<close>

definition fetchSignature_send :: "string \<Rightarrow> etag_data \<Rightarrow> world \<Rightarrow> string \<times> world" where
  "fetchSignature_send u etagData w =
     (let tok = token_of (signatures etagData) u in (tok, log_call (RawCall u tok) w))"

definition fetchSignature_resume ::
  "upstream \<Rightarrow> cache_data \<Rightarrow> string \<Rightarrow> string \<Rightarrow> etag_data \<Rightarrow> json \<times> etag_data" where
  "fetchSignature_resume up cacheData u tok etagData =
     (case axios_get (raw_api up u tok) of
        Inl err \<Rightarrow> (JString [], etagData)
      | Inr (st, et, d) \<Rightarrow>
          if st = 304
          then (cached_signature cacheData (determinePlatform (last_segment u)), etagData)
          else (d, etagData\<lparr>signatures := Some ((or_object (signatures etagData))(u := et))\<rparr>))"

text \<open>The whole function, when nothing runs between the request and its answer.\<close>

definition fetchSignature ::
  "upstream \<Rightarrow> string \<Rightarrow> etag_data \<Rightarrow> world \<Rightarrow> json \<times> etag_data \<times> world" where
  "fetchSignature up u etagData w =
     (case fetchSignature_send u etagData w of
        (tok, w1) \<Rightarrow>
          (case fetchSignature_resume up (cached w1) u tok etagData of
             (sg, etagData') \<Rightarrow> (sg, etagData', w1)))"

section \<open>Manifest construction\<close>

text \<open>
  \<^verbatim>\<open>
  const platformFiles: { [key: string]: { signature: string; url: string; } } = {};
  await Promise.all(files.map(async (file: File) => {
    const platformKey = determinePlatform(file.name);
    if (ENABLED_PLATFORMS[platformKey as keyof typeof ENABLED_PLATFORMS]) {
      if (file.name.endsWith('.sig')) {
        if (platformFiles[platformKey]) {
          platformFiles[platformKey].signature = await fetchSignature(file.url, etagData);
        }
      } else {
        if (!platformFiles[platformKey]) {
          platformFiles[platformKey] = { signature: '', url: file.url };
        }
      }
    }
  }));
  \<close>
  \<^verbatim>\<open>map\<close> calls the callback for each file in the order of the list, and each call runs
  up to its first \<^verbatim>\<open>await\<close>: the one inside \<^verbatim>\<open>fetchSignature\<close>, for a signature file whose
  platform has an entry, and none at all for the other files. So the tests of
  \<^verbatim>\<open>platformFiles\<close>, the registrations and the signature requests happen in the order of
  the list, before any answer is handled. A callback that waits is recorded with the
  platform whose entry it will write to, the URL it asked for and the token it sent.
\<close>

record in_flight =
  flight_key :: string
  flight_url :: string
  flight_token :: string

text \<open>The callback for one file, up to its first \<^verbatim>\<open>await\<close>.\<close>

definition callback_start ::
  "config \<Rightarrow> etag_data \<Rightarrow> File \<Rightarrow> (string \<rightharpoonup> platform_file) \<times> world \<times> in_flight list
     \<Rightarrow> (string \<rightharpoonup> platform_file) \<times> world \<times> in_flight list" where
  "callback_start cfg etagData f st =
     (case st of (platformFiles, w, waiting) \<Rightarrow>
        (let platformKey = determinePlatform (name f) in
         if platform_enabled cfg platformKey then
           if endsWith (name f) ''.sig'' then
             (case platformFiles platformKey of
                Some entry \<Rightarrow>
                  (case fetchSignature_send (file_url f) etagData w of
                     (tok, w') \<Rightarrow>
                       (platformFiles, w',
                        waiting @ [\<lparr>flight_key = platformKey, flight_url = file_url f,
                                     flight_token = tok\<rparr>]))
              | None \<Rightarrow> (platformFiles, w, waiting))
           else
             (case platformFiles platformKey of
                None \<Rightarrow>
                  (platformFiles(platformKey \<mapsto> \<lparr>signature = JString [], url = file_url f\<rparr>),
                   w, waiting)
              | Some entry \<Rightarrow> (platformFiles, w, waiting))
         else (platformFiles, w, waiting)))"

fun callbacks_start ::
  "config \<Rightarrow> etag_data \<Rightarrow> File list \<Rightarrow> (string \<rightharpoonup> platform_file) \<times> world \<times> in_flight list
     \<Rightarrow> (string \<rightharpoonup> platform_file) \<times> world \<times> in_flight list" where
  "callbacks_start cfg etagData [] st = st"
| "callbacks_start cfg etagData (f # fs) st =
     callbacks_start cfg etagData fs (callback_start cfg etagData f st)"

text \<open>
  The answer to a request in flight arrives: \<^verbatim>\<open>fetchSignature\<close> goes on and returns, and
  the callback assigns the result to the \<open>signature\<close> of the entry it took before the
  \<^verbatim>\<open>await\<close>. Entries are never removed or replaced, so that entry is still the one of the
  platform.
\<close>

definition callback_resume ::
  "upstream \<Rightarrow> cache_data \<Rightarrow> in_flight \<Rightarrow> (string \<rightharpoonup> platform_file) \<times> etag_data
     \<Rightarrow> (string \<rightharpoonup> platform_file) \<times> etag_data" where
  "callback_resume up cacheData p st =
     (case st of (platformFiles, etagData) \<Rightarrow>
        (case fetchSignature_resume up cacheData (flight_url p) (flight_token p) etagData of
           (sg, etagData') \<Rightarrow>
             (case platformFiles (flight_key p) of
                Some entry \<Rightarrow>
                  (platformFiles(flight_key p \<mapsto> entry\<lparr>signature := sg\<rparr>), etagData')
              | None \<Rightarrow> (platformFiles, etagData'))))"

fun callbacks_resume ::
  "upstream \<Rightarrow> cache_data \<Rightarrow> in_flight list \<Rightarrow> (string \<rightharpoonup> platform_file) \<times> etag_data
     \<Rightarrow> (string \<rightharpoonup> platform_file) \<times> etag_data" where
  "callbacks_resume up cacheData [] st = st"
| "callbacks_resume up cacheData (p # ps) st =
     callbacks_resume up cacheData ps (callback_resume up cacheData p st)"

text \<open>
  The order in which the answers arrive: by the time each takes, and in the order of the
  requests for equal times. Every order of the requests in flight is the arrival order
  for some \<open>latency\<close>, when their URLs differ.
\<close>

definition arrival_order :: "upstream \<Rightarrow> in_flight list \<Rightarrow> in_flight list" where
  "arrival_order up waiting = sort_key (\<lambda>p. latency up (flight_url p)) waiting"

text \<open>
  The whole \<^verbatim>\<open>await Promise.all(...)\<close>: all callbacks start, then the answers are handled
  as they arrive. The cache is not written meanwhile. The result is \<^verbatim>\<open>platformFiles\<close>,
  the validator object and the state.
\<close>

definition process_files ::
  "config \<Rightarrow> upstream \<Rightarrow> File list \<Rightarrow> etag_data \<Rightarrow> world
     \<Rightarrow> (string \<rightharpoonup> platform_file) \<times> etag_data \<times> world" where
  "process_files cfg up files etagData w =
     (case callbacks_start cfg etagData files (Map.empty, w, []) of
        (registered, w', waiting) \<Rightarrow>
          (case callbacks_resume up (cached w') (arrival_order up waiting)
                  (registered, etagData) of
             (platformFiles, etagData') \<Rightarrow> (platformFiles, etagData', w')))"

text \<open>
  \<^verbatim>\<open>
  const orderedPlatforms = Object.fromEntries(
    Object.entries(ENABLED_PLATFORMS)
      .filter(([_, enabled]) => enabled)
      .map(([key]) => [key, platformFiles[key] || {}]));
  \<close>
\<close>

definition orderedPlatforms ::
  "config \<Rightarrow> (string \<rightharpoonup> platform_file) \<Rightarrow> (string \<times> descriptor) list" where
  "orderedPlatforms cfg platformFiles =
     map (\<lambda>(key, enabled).
            (key, case platformFiles key of Some entry \<Rightarrow> PlatformFile entry
                                          | None \<Rightarrow> EmptyObject))
         (filter (\<lambda>(key, enabled). enabled) (ENABLED_PLATFORMS cfg))"

text \<open>
  The second half of \<^verbatim>\<open>fetchGitHubData\<close> (from \<^verbatim>\<open>const platformFiles\<close> on): classify
  and pair the files, assemble the manifest, write it and the validators to their files.
\<close>

definition build_manifest ::
  "config \<Rightarrow> upstream \<Rightarrow> release \<Rightarrow> File list \<Rightarrow> etag_data \<Rightarrow> world
     \<Rightarrow> (error + cache_data) \<times> etag_data \<times> world" where
  "build_manifest cfg up latestRelease files etagData w =
     (case process_files cfg up files etagData w of
        (platformFiles, etagData', w') \<Rightarrow>
          (let cacheData = Manifest
                 \<lparr>version = tag_name latestRelease,
                  release_notes = ''A new version is available'',
                  pub_date = published_at latestRelease,
                  platforms = orderedPlatforms cfg platformFiles\<rparr>
           in (Inr cacheData, etagData', w'\<lparr>CACHE_FILE := cacheData, ETAG_FILE := etagData'\<rparr>)))"

section \<open>The fetch pipeline\<close>

text \<open>
  \<^verbatim>\<open>
  files = filesResponse.data.map((file: any) => ({
    name: file.name,
    url: `https://github.com/${GITHUB_ARCHIVE_REPO}/raw/main/${latestRelease.tag_name}/${file.name}`
  }));
  \<close>
\<close>

definition archive_file :: "config \<Rightarrow> string \<Rightarrow> string \<Rightarrow> File" where
  "archive_file cfg tag n =
     \<lparr>name = n,
      file_url = ''https://github.com/'' @ archive_repo cfg @ ''/raw/main/'' @ tag @ ''/'' @ n\<rparr>"

text \<open>
  \<^verbatim>\<open>
  async function fetchGitHubData(etagData: ETagData) {
    const releasesResponse = await axios.get(GITHUB_RELEASES_URL, {
      headers: { 'If-None-Match': etagData.releases || '' }, validateStatus: ... });
    if (releasesResponse.status === 304) {
      return cache.get('cacheData') || JSON.parse(await readFileAsync(CACHE_FILE, ...));
    }
    const latestRelease = releasesResponse.data[0];
    etagData.releases = releasesResponse.headers.etag;
    if (!etagData.archives) etagData.archives = {};
    if (!etagData.signatures) etagData.signatures = {};
    const filesResponse = await axios.get(`${GITHUB_ARCHIVES_URL}${latestRelease.tag_name}`, {
      headers: { 'If-None-Match': etagData.archives[latestRelease.tag_name] || '' }, ... });
    let files: File[] = [];
    if (filesResponse.status !== 304) {
      etagData.archives[latestRelease.tag_name] = filesResponse.headers.etag;
      files = filesResponse.data.map(...);
    } else {
      const currentData = cache.get('cacheData') || JSON.parse(...);
      if (currentData && currentData.version === latestRelease.tag_name) {
        return currentData;
      }
    }
    ... (build_manifest)
  }
  \<close>
  \<open>etagData\<close> is mutated in place, so the object is returned as the function leaves it,
  also when it throws. On an empty release list \<open>latestRelease\<close> is undefined; the
  assignments to \<open>etagData\<close> still run, and building the URL of the second request reads
  \<^verbatim>\<open>latestRelease.tag_name\<close>, which throws a TypeError before the request is made.
\<close>

definition fetchGitHubData ::
  "config \<Rightarrow> upstream \<Rightarrow> etag_data \<Rightarrow> world \<Rightarrow> (error + cache_data) \<times> etag_data \<times> world" where
  "fetchGitHubData cfg up etagData w =
     (let tok = or_empty (releases etagData);
          w1 = log_call (ReleasesCall tok) w
      in case axios_get (releases_api up tok) of
           Inl err \<Rightarrow> (Inl err, etagData, w1)
         | Inr (st, et, rels) \<Rightarrow>
             if st = 304 then (Inr (cached w1), etagData, w1)
             else
               (let e1 = etagData\<lparr>releases := et\<rparr>;
                    e2 = e1\<lparr>archives := Some (or_object (archives e1)),
                            signatures := Some (or_object (signatures e1))\<rparr>
                in case rels of
                     [] \<Rightarrow> (Inl TypeError, e2, w1)
                   | latestRelease # older \<Rightarrow>
                       (let tag = tag_name latestRelease;
                            atok = token_of (archives e2) tag;
                            w2 = log_call (ContentsCall tag atok) w1
                        in case axios_get (contents_api up tag atok) of
                             Inl err \<Rightarrow> (Inl err, e2, w2)
                           | Inr (st2, et2, names) \<Rightarrow>
                               if st2 \<noteq> 304 then
                                 build_manifest cfg up latestRelease
                                   (map (archive_file cfg tag) names)
                                   (e2\<lparr>archives := Some ((or_object (archives e2))(tag := et2))\<rparr>)
                                   w2
                               else
                                 (case cached w2 of
                                    Manifest m \<Rightarrow>
                                      if version m = tag then (Inr (Manifest m), e2, w2)
                                      else build_manifest cfg up latestRelease [] e2 w2
                                  | EmptyCache \<Rightarrow>
                                      build_manifest cfg up latestRelease [] e2 w2))))"

section \<open>Request handlers\<close>

text \<open>
  A request, as its headers: the name of a header, in lower case, to its value.
\<close>

type_synonym request = "string \<rightharpoonup> string"

text \<open>
  \<^verbatim>\<open>res.json(data)\<close> is the web framework's. The handlers set no status and do not switch
  off the framework's entity tags, so it tags the body and, when the request is fresh
  for that body (its conditional headers, \<^verbatim>\<open>If-None-Match\<close> above all, match the tag),
  answers 304 with no body; otherwise it answers 200 with the data as the JSON body.
  The freshness test is the framework's and is a parameter here: \<open>fresh req d\<close> says that
  request \<open>req\<close> is fresh for the body of \<open>d\<close>.
\<close>

type_synonym freshness = "request \<Rightarrow> cache_data \<Rightarrow> bool"

record http_response =
  status :: nat
  body :: "cache_data option"

definition res_json :: "freshness \<Rightarrow> request \<Rightarrow> cache_data \<Rightarrow> http_response" where
  "res_json fresh req d =
     (if fresh req d then \<lparr>status = 304, body = None\<rparr> else \<lparr>status = 200, body = Some d\<rparr>)"

text \<open>
  \<^verbatim>\<open>cache.get('etagData') || JSON.parse(await readFileAsync(ETAG_FILE, ...))\<close>
\<close>

definition load_etagData :: "world \<Rightarrow> etag_data" where
  "load_etagData w = (case mem_etagData w of Some e \<Rightarrow> e | None \<Rightarrow> ETAG_FILE w)"

text \<open>
  When \<open>etagData\<close> came from the in-memory cache, the pipeline mutated the cached object
  itself; when it was parsed from the file, the mutated object is local to the request.
\<close>

definition sync_etagData :: "etag_data \<Rightarrow> world \<Rightarrow> world" where
  "sync_etagData e w = w\<lparr>mem_etagData := map_option (\<lambda>_. e) (mem_etagData w)\<rparr>"

text \<open>\<^verbatim>\<open>!cacheData || !Object.keys(cacheData).length\<close>\<close>

definition cache_is_empty :: "cache_data \<Rightarrow> bool" where
  "cache_is_empty d \<longleftrightarrow> (case d of EmptyCache \<Rightarrow> True | Manifest m \<Rightarrow> False)"

text \<open>\<^verbatim>\<open>fetchError.response && fetchError.response.status === 403\<close>\<close>

definition is_403 :: "error \<Rightarrow> bool" where
  "is_403 err \<longleftrightarrow> err = AxiosError (Some 403)"

text \<open>
  The handler of \<^verbatim>\<open>src/index.ts\<close>:
  \<^verbatim>\<open>
  try {
    if (!cacheData || !Object.keys(cacheData).length) {
      try {
        cacheData = await fetchGitHubData(etagData);
        cache.set('cacheData', cacheData);
      } catch (fetchError: any) {
        if (fetchError.response && fetchError.response.status === 403) {
          res.json(cacheData || {});
          return;
        }
      }
    } else {
      try {
        const updatedData = await fetchGitHubData(etagData);
        if (updatedData !== cacheData) { cacheData = updatedData; cache.set('cacheData', cacheData); }
      } catch (error: any) { }
    }
    res.json(cacheData);
  } catch (error: any) { ... res.json(cacheData || {}); }
  \<close>
  The result is \<open>Inr\<close> of the response sent, or \<open>Inl\<close> of an error that leaves the handler.
  When \<open>updatedData\<close> is the cached object itself, assigning it and setting the cache
  again change nothing, so both cases of the comparison give the same reply and cache.
\<close>

definition app_get ::
  "config \<Rightarrow> freshness \<Rightarrow> upstream \<Rightarrow> request \<Rightarrow> world \<Rightarrow> (error + http_response) \<times> world" where
  "app_get cfg fresh up req w =
     (let cacheData = cached w;
          etagData = load_etagData w
      in if cache_is_empty cacheData then
           (case fetchGitHubData cfg up etagData w of
              (Inr d, e', w') \<Rightarrow>
                (Inr (res_json fresh req d),
                 sync_etagData e' (w'\<lparr>mem_cacheData := Some d\<rparr>))
            | (Inl fetchError, e', w') \<Rightarrow>
                if is_403 fetchError
                then (Inr (res_json fresh req cacheData), sync_etagData e' w')
                else (Inr (res_json fresh req cacheData), sync_etagData e' w'))
         else
           (case fetchGitHubData cfg up etagData w of
              (Inr updatedData, e', w') \<Rightarrow>
                (Inr (res_json fresh req updatedData),
                 sync_etagData e' (w'\<lparr>mem_cacheData := Some updatedData\<rparr>))
            | (Inl err, e', w') \<Rightarrow>
                (Inr (res_json fresh req cacheData), sync_etagData e' w')))"

text \<open>
  The variant of the server with a minimum fetch interval:
  \<^verbatim>\<open>
  let lastFetchTime = 0;
  const MIN_FETCH_INTERVAL = 5 * 60 * 1000;
  ...
  const now = Date.now()
  lastFetchTime = etagData.lastFetchTime || 0;
  if (cacheData.version && now - lastFetchTime < MIN_FETCH_INTERVAL) {
    res.json(cacheData);
    return;
  }
  try {
    cacheData = await fetchGitHubData(etagData)
    lastFetchTime = now
    etagData.lastFetchTime = lastFetchTime;
    cache.set('cacheData', cacheData)
    cache.set('etagData', etagData);
    await writeFileAsync(ETAG_FILE, JSON.stringify(etagData));
    res.json(cacheData);
    return;
  } catch (error: any) {
    res.json(cacheData);
    return;
  }
  \<close>
  Times are milliseconds.
\<close>

definition MIN_FETCH_INTERVAL :: int where
  "MIN_FETCH_INTERVAL = 5 * 60 * 1000"

text \<open>\<^verbatim>\<open>cacheData.version\<close> as a condition: a version that is present and not empty.\<close>

definition has_version :: "cache_data \<Rightarrow> bool" where
  "has_version d \<longleftrightarrow> (case d of EmptyCache \<Rightarrow> False | Manifest m \<Rightarrow> version m \<noteq> [])"

text \<open>\<^verbatim>\<open>etagData.lastFetchTime || 0\<close>\<close>

definition last_fetch :: "etag_data \<Rightarrow> int" where
  "last_fetch e = (case lastFetchTime e of None \<Rightarrow> 0 | Some t \<Rightarrow> t)"

definition trust_cache :: "cache_data \<Rightarrow> int \<Rightarrow> int \<Rightarrow> bool" where
  "trust_cache cacheData now lft \<longleftrightarrow> has_version cacheData \<and> now - lft < MIN_FETCH_INTERVAL"

definition app_get_interval ::
  "config \<Rightarrow> freshness \<Rightarrow> upstream \<Rightarrow> request \<Rightarrow> int \<Rightarrow> world
     \<Rightarrow> (error + http_response) \<times> world" where
  "app_get_interval cfg fresh up req now w =
     (let cacheData = cached w;
          etagData = load_etagData w
      in if trust_cache cacheData now (last_fetch etagData)
         then (Inr (res_json fresh req cacheData), w)
         else
           (case fetchGitHubData cfg up etagData w of
              (Inr d, e', w') \<Rightarrow>
                (let e'' = e'\<lparr>lastFetchTime := Some now\<rparr>
                 in (Inr (res_json fresh req d),
                     w'\<lparr>mem_cacheData := Some d, mem_etagData := Some e'', ETAG_FILE := e''\<rparr>))
            | (Inl err, e', w') \<Rightarrow>
                (Inr (res_json fresh req cacheData), sync_etagData e' w')))"

text \<open>Reading the descriptor of a platform off the result of the pipeline.\<close>

definition platform_descriptor :: "error + cache_data \<Rightarrow> string \<Rightarrow> descriptor option" where
  "platform_descriptor r k =
     (case r of Inr (Manifest m) \<Rightarrow> map_of (platforms m) k | _ \<Rightarrow> None)"

section \<open>Example data\<close>

text \<open>
  A configuration with the ARM64 Windows variant switched off, a release \<open>v1.0.0\<close> whose
  archive directory holds an installer, its signature and a file of no platform, and an
  upstream that answers 304 to the validators it handed out and gives each signature
  file a content of its own.
\<close>

definition example_config :: config where
  "example_config =
     \<lparr>release_repo = ''owner/app'', archive_repo = ''owner/archives'',
      enabled_platforms = \<lparr>linux = Some True, windows_x86 = None, windows_arm64 = Some False,
         macos_intel = Some True, macos_silicon = Some True\<rparr>\<rparr>"

definition example_release :: release where
  "example_release = \<lparr>tag_name = ''v1.0.0'', published_at = ''2024-01-01T00:00:00Z''\<rparr>"

definition example_upstream :: upstream where
  "example_upstream =
     \<lparr>releases_api = (\<lambda>tok. if tok = ''r1'' then Response 304 None []
                            else Response 200 (Some ''r1'') [example_release]),
      contents_api = (\<lambda>tag tok. if tok = ''a1'' then Response 304 None []
                        else Response 200 (Some ''a1'')
                               [''App-1.0.0.msi'', ''App-1.0.0.msi.sig'', ''readme.txt'']),
      raw_api = (\<lambda>u tok. Response 200 (Some ''s1'')
                   (JString (''signature in '' @ last_segment u))),
      latency = (\<lambda>u. 0)\<rparr>"

text \<open>An upstream that answers every release-list request with 403 (rate limited).\<close>

definition rate_limited_upstream :: upstream where
  "rate_limited_upstream = example_upstream\<lparr>releases_api := (\<lambda>tok. Response 403 None [])\<rparr>"

text \<open>An upstream whose release list is empty.\<close>

definition no_releases_upstream :: upstream where
  "no_releases_upstream =
     example_upstream\<lparr>releases_api := (\<lambda>tok. Response 200 (Some ''r0'') [])\<rparr>"

text \<open>An upstream whose answer for the signature of the installer comes late.\<close>

definition slow_signature_upstream :: upstream where
  "slow_signature_upstream =
     example_upstream
       \<lparr>latency := (\<lambda>u. if last_segment u = ''App-1.0.0.msi.sig'' then 5 else 0)\<rparr>"

definition no_validators :: etag_data where
  "no_validators = \<lparr>releases = None, archives = None, signatures = None, lastFetchTime = None\<rparr>"

text \<open>Validators of an older release list, with the archive token of \<open>v1.0.0\<close>.\<close>

definition stale_release_validators :: etag_data where
  "stale_release_validators =
     \<lparr>releases = Some ''r0'', archives = Some [''v1.0.0'' \<mapsto> ''a1''], signatures = None,
      lastFetchTime = None\<rparr>"

text \<open>The state at first boot: nothing in memory, both files \<^verbatim>\<open>{}\<close>.\<close>

definition cold_start :: world where
  "cold_start = \<lparr>mem_cacheData = None, mem_etagData = None, CACHE_FILE = EmptyCache,
      ETAG_FILE = no_validators, calls = []\<rparr>"

text \<open>A request without conditional headers, and a freshness test that no request passes.\<close>

definition plain_request :: request where
  "plain_request = [''user-agent'' \<mapsto> ''tauri-updater'']"

definition never_fresh :: freshness where
  "never_fresh req d \<longleftrightarrow> False"

text \<open>The state after one request at time 0 from first boot.\<close>

definition warm_start :: world where
  "warm_start =
     snd (app_get_interval example_config never_fresh example_upstream plain_request 0 cold_start)"

text \<open>
  A stand-in for the framework's entity tag, which is computed from the bytes of the
  body, and the freshness test for a request that sends back one tag: the request is
  fresh when its \<^verbatim>\<open>If-None-Match\<close> is the tag of the body.
\<close>

definition example_etag :: "cache_data \<Rightarrow> string" where
  "example_etag d =
     (case d of EmptyCache \<Rightarrow> ''W/empty'' | Manifest m \<Rightarrow> ''W/'' @ version m @ pub_date m)"

definition matching_tag :: freshness where
  "matching_tag req d \<longleftrightarrow> req ''if-none-match'' = Some (example_etag d)"

text \<open>A client that asks again with the tag of the manifest of \<open>v1.0.0\<close>.\<close>

definition conditional_request :: request where
  "conditional_request =
     [''user-agent'' \<mapsto> ''tauri-updater'',
      ''if-none-match'' \<mapsto> ''W/v1.0.02024-01-01T00:00:00Z'']"

definition sig_file :: File where
  "sig_file = archive_file example_config ''v1.0.0'' ''App-1.0.0.msi.sig''"

definition base_file :: File where
  "base_file = archive_file example_config ''v1.0.0'' ''App-1.0.0.msi''"

definition other_sig_file :: File where
  "other_sig_file = archive_file example_config ''v1.0.0'' ''Setup-1.0.0.msi.sig''"

section \<open>Properties of the classifier\<close>

lemma endsWith_append [simp]: "endsWith (f @ suf) suf"
  by (simp add: endsWith_def)

lemma slice_end_append [simp]: "length suf = n \<Longrightarrow> slice_end (f @ suf) n = f"
  by (simp add: slice_end_def)

lemma determinePlatform_range:
  "determinePlatform f \<in> {''linux-x86_64'', ''windows-x86_64'', ''windows-aarch64'',
      ''darwin-x86_64'', ''darwin-aarch64'', ''unknown''}"
proof (induction f rule: determinePlatform.induct)
  case (1 filename)
  show ?case
  proof (cases "endsWith filename ''.sig''")
    case True
    with 1 show ?thesis
      by (subst determinePlatform.simps) simp
  next
    case False
    then show ?thesis
      by (subst determinePlatform.simps) simp
  qed
qed

text \<open>
  Claim C6. The classifier is a total function from file names to the five platform
  identifiers or \<open>unknown\<close> (it never fails), and on the file names of the naming
  conventions it returns the expected identifier; a name matching no convention gives
  \<open>unknown\<close>. The ARM64 answer does not depend on the configuration, so it holds in
  particular when that variant is enabled.
\<close>

theorem C6_determinePlatform_conventions:
  "determinePlatform ''App-1.2.3.AppImage'' = ''linux-x86_64''
   \<and> determinePlatform ''App-1.2.3.msi'' = ''windows-x86_64''
   \<and> determinePlatform ''App-1.2.3-arm64.msi'' = ''windows-aarch64''
   \<and> determinePlatform ''App_intel.app.tar.gz'' = ''darwin-x86_64''
   \<and> determinePlatform ''App_silicon.app.tar.gz'' = ''darwin-aarch64''
   \<and> determinePlatform ''readme.txt'' = ''unknown''
   \<and> (\<forall>f. determinePlatform f \<in> {''linux-x86_64'', ''windows-x86_64'', ''windows-aarch64'',
          ''darwin-x86_64'', ''darwin-aarch64'', ''unknown''})
   \<and> (\<forall>f. \<not> endsWith f ''.sig'' \<and> \<not> endsWith f ''.AppImage'' \<and> \<not> endsWith f ''.msi''
          \<and> \<not> endsWith f ''_intel.app.tar.gz'' \<and> \<not> endsWith f ''_silicon.app.tar.gz''
          \<longrightarrow> determinePlatform f = ''unknown'')"
proof -
  have a: "determinePlatform ''App-1.2.3.AppImage'' = ''linux-x86_64''"
    by (simp add: determinePlatform.simps endsWith_def)
  have b: "determinePlatform ''App-1.2.3.msi'' = ''windows-x86_64''"
    by (simp add: determinePlatform.simps endsWith_def)
  have c: "determinePlatform ''App-1.2.3-arm64.msi'' = ''windows-aarch64''"
    by (simp add: determinePlatform.simps endsWith_def)
  have d: "determinePlatform ''App_intel.app.tar.gz'' = ''darwin-x86_64''"
    by (simp add: determinePlatform.simps endsWith_def)
  have e: "determinePlatform ''App_silicon.app.tar.gz'' = ''darwin-aarch64''"
    by (simp add: determinePlatform.simps endsWith_def)
  have f: "determinePlatform ''readme.txt'' = ''unknown''"
    by (simp add: determinePlatform.simps endsWith_def)
  have g: "\<forall>f. determinePlatform f \<in> {''linux-x86_64'', ''windows-x86_64'',
      ''windows-aarch64'', ''darwin-x86_64'', ''darwin-aarch64'', ''unknown''}"
    using determinePlatform_range by blast
  have h: "\<forall>f. \<not> endsWith f ''.sig'' \<and> \<not> endsWith f ''.AppImage'' \<and> \<not> endsWith f ''.msi''
          \<and> \<not> endsWith f ''_intel.app.tar.gz'' \<and> \<not> endsWith f ''_silicon.app.tar.gz''
          \<longrightarrow> determinePlatform f = ''unknown''"
    by (simp add: determinePlatform.simps)
  from a b c d e f g h show ?thesis by blast
qed

theorem C6_determinePlatform_conventions_witness:
  "\<not> endsWith ''LICENSE'' ''.sig'' \<and> \<not> endsWith ''LICENSE'' ''.AppImage''
   \<and> \<not> endsWith ''LICENSE'' ''.msi'' \<and> \<not> endsWith ''LICENSE'' ''_intel.app.tar.gz''
   \<and> \<not> endsWith ''LICENSE'' ''_silicon.app.tar.gz''
   \<and> determinePlatform ''LICENSE'' = ''unknown''"
proof -
  have h: "\<not> endsWith ''LICENSE'' ''.sig'' \<and> \<not> endsWith ''LICENSE'' ''.AppImage''
   \<and> \<not> endsWith ''LICENSE'' ''.msi'' \<and> \<not> endsWith ''LICENSE'' ''_intel.app.tar.gz''
   \<and> \<not> endsWith ''LICENSE'' ''_silicon.app.tar.gz''"
    by (simp add: endsWith_def)
  with C6_determinePlatform_conventions have "determinePlatform ''LICENSE'' = ''unknown''"
    by blast
  with h show ?thesis by blast
qed

text \<open>
  Claim C7. Appending the signature suffix \<open>.sig\<close> to any file name does not change its
  classification.
\<close>

theorem C7_determinePlatform_sig: "determinePlatform (f @ ''.sig'') = determinePlatform f"
  by (subst determinePlatform.simps) simp

section \<open>Properties of the fetch pipeline\<close>

lemma cached_log_call [simp]: "cached (log_call c w) = cached w"
  by (simp add: cached_def log_call_def split: option.split)

lemma calls_log_call [simp]: "calls (log_call c w) = calls w @ [c]"
  by (simp add: log_call_def)

lemma fields_log_call [simp]:
  "CACHE_FILE (log_call c w) = CACHE_FILE w" "ETAG_FILE (log_call c w) = ETAG_FILE w"
  "mem_cacheData (log_call c w) = mem_cacheData w" "mem_etagData (log_call c w) = mem_etagData w"
  by (simp_all add: log_call_def)

lemma axios_get_Response:
  "axios_get (Response st et d) =
     (if validateStatus st then Inr (st, et, d) else Inl (AxiosError (Some st)))"
  by (simp add: axios_get_def)

lemma token_of_or_object [simp]: "token_of (Some (or_object m)) k = token_of m k"
  by (simp add: token_of_def or_object_def or_empty_def split: option.split)

lemma fetchGitHubData_release_304:
  assumes "releases_api up (or_empty (releases etagData)) = Response 304 et rels"
  shows "fetchGitHubData cfg up etagData w =
           (Inr (cached w), etagData, log_call (ReleasesCall (or_empty (releases etagData))) w)"
  using assms by (simp add: fetchGitHubData_def Let_def axios_get_Response validateStatus_def)

lemma fetchGitHubData_release_failure:
  "axios_get (releases_api up (or_empty (releases e))) = Inl err \<Longrightarrow>
   fetchGitHubData cfg up e w = (Inl err, e, log_call (ReleasesCall (or_empty (releases e))) w)"
  by (simp add: fetchGitHubData_def Let_def)

text \<open>
  Claim C2. When the release-list request is answered 304, the pipeline returns the cached
  manifest (the in-memory one, else the one of the cache file) as it is, leaves the
  validators alone, and the release-list request is the only upstream request of the run.
\<close>

theorem C2_release_list_304:
  assumes "releases_api up (or_empty (releases etagData)) = Response 304 et rels"
  shows "fst (fetchGitHubData cfg up etagData w) = Inr (cached w)
         \<and> calls (snd (snd (fetchGitHubData cfg up etagData w)))
             = calls w @ [ReleasesCall (or_empty (releases etagData))]"
  using fetchGitHubData_release_304 [OF assms, of cfg w] by simp

theorem C2_release_list_304_witness:
  "releases_api example_upstream (or_empty (releases (load_etagData warm_start)))
     = Response 304 None []
   \<and> fst (fetchGitHubData example_config example_upstream (load_etagData warm_start) warm_start)
       = Inr (cached warm_start)
   \<and> calls (snd (snd (fetchGitHubData example_config example_upstream
         (load_etagData warm_start) warm_start)))
       = calls warm_start @ [ReleasesCall (or_empty (releases (load_etagData warm_start)))]"
proof -
  have h: "releases_api example_upstream (or_empty (releases (load_etagData warm_start)))
     = Response 304 None []"
    by code_simp
  from C2_release_list_304 [OF h] h show ?thesis by blast
qed

text \<open>
  Claim C9. With the release-list request answered 304, a second run of the pipeline from
  the state the first run left returns the same manifest as the first, and neither run
  changes a validator: the object passed in, the in-memory copy and the validator file
  are as before (and so are the cache and its file).
\<close>

theorem C9_pipeline_idempotent:
  assumes "releases_api up (or_empty (releases etagData)) = Response 304 et rels"
    and "c = ReleasesCall (or_empty (releases etagData))"
  shows "fetchGitHubData cfg up etagData w = (Inr (cached w), etagData, log_call c w)
         \<and> fetchGitHubData cfg up etagData (log_call c w)
             = (Inr (cached w), etagData, log_call c (log_call c w))
         \<and> ETAG_FILE (log_call c (log_call c w)) = ETAG_FILE w
         \<and> mem_etagData (log_call c (log_call c w)) = mem_etagData w
         \<and> CACHE_FILE (log_call c (log_call c w)) = CACHE_FILE w
         \<and> mem_cacheData (log_call c (log_call c w)) = mem_cacheData w"
  using fetchGitHubData_release_304 [OF assms(1), of cfg w]
    fetchGitHubData_release_304 [OF assms(1), of cfg "log_call c w"] assms(2)
  by simp

theorem C9_pipeline_idempotent_witness:
  "releases_api example_upstream (or_empty (releases (load_etagData warm_start)))
     = Response 304 None []
   \<and> fetchGitHubData example_config example_upstream (load_etagData warm_start) warm_start
       = (Inr (cached warm_start), load_etagData warm_start,
          log_call (ReleasesCall (or_empty (releases (load_etagData warm_start)))) warm_start)
   \<and> fetchGitHubData example_config example_upstream (load_etagData warm_start)
         (log_call (ReleasesCall (or_empty (releases (load_etagData warm_start)))) warm_start)
       = (Inr (cached warm_start), load_etagData warm_start,
          log_call (ReleasesCall (or_empty (releases (load_etagData warm_start))))
            (log_call (ReleasesCall (or_empty (releases (load_etagData warm_start)))) warm_start))"
proof -
  have h: "releases_api example_upstream (or_empty (releases (load_etagData warm_start)))
     = Response 304 None []"
    by code_simp
  from C9_pipeline_idempotent [OF h refl] h show ?thesis by blast
qed

text \<open>
  Claim C10. When the release-list request succeeds with an empty list, the pipeline
  throws a TypeError (it reads \<open>tag_name\<close> of the undefined first element): no manifest
  is produced or written, and no further request is made. Nothing but the 2xx status and
  the empty body is assumed.
\<close>

theorem C10_empty_release_list:
  assumes "releases_api up (or_empty (releases etagData)) = Response st et []"
    and "200 \<le> st" and "st < 300"
  shows "fst (fetchGitHubData cfg up etagData w) = Inl TypeError
         \<and> calls (snd (snd (fetchGitHubData cfg up etagData w)))
             = calls w @ [ReleasesCall (or_empty (releases etagData))]
         \<and> CACHE_FILE (snd (snd (fetchGitHubData cfg up etagData w))) = CACHE_FILE w"
  using assms by (simp add: fetchGitHubData_def Let_def axios_get_Response validateStatus_def)

theorem C10_empty_release_list_witness:
  "releases_api no_releases_upstream (or_empty (releases no_validators))
     = Response 200 (Some ''r0'') []
   \<and> (200::nat) \<le> 200 \<and> (200::nat) < 300
   \<and> fst (fetchGitHubData example_config no_releases_upstream no_validators cold_start)
       = Inl TypeError"
proof -
  have h: "releases_api no_releases_upstream (or_empty (releases no_validators))
     = Response 200 (Some ''r0'') []"
    by (simp add: no_releases_upstream_def)
  from C10_empty_release_list [OF h, of example_config cold_start] h show ?thesis by simp
qed

section \<open>Properties of manifest construction\<close>

lemma map_fst_ENABLED_PLATFORMS: "map fst (ENABLED_PLATFORMS cfg) = declared_order"
  by (simp add: ENABLED_PLATFORMS_def declared_order_def)

lemma distinct_declared_order: "distinct declared_order"
  by (simp add: declared_order_def)

lemma enabled_entries:
  "distinct (map fst xs) \<Longrightarrow>
   map (\<lambda>(key, enabled). (key, g key)) (filter (\<lambda>(key, enabled). enabled) xs)
     = map (\<lambda>k. (k, g k)) (filter (\<lambda>k. map_of xs k = Some True) (map fst xs))"
proof (induction xs)
  case Nil
  then show ?case by simp
next
  case (Cons x xs)
  obtain k b where x: "x = (k, b)" by (cases x)
  have "filter (\<lambda>k'. map_of ((k, b) # xs) k' = Some True) (map fst xs)
        = filter (\<lambda>k'. map_of xs k' = Some True) (map fst xs)"
    using Cons.prems x by (intro filter_cong) auto
  with Cons x show ?case by simp
qed

lemma orderedPlatforms_eq:
  "orderedPlatforms cfg pf =
     map (\<lambda>k. (k, case pf k of Some entry \<Rightarrow> PlatformFile entry | None \<Rightarrow> EmptyObject))
         (filter (platform_enabled cfg) declared_order)"
proof -
  have "distinct (map fst (ENABLED_PLATFORMS cfg))"
    by (simp add: map_fst_ENABLED_PLATFORMS distinct_declared_order)
  then show ?thesis
    unfolding orderedPlatforms_def platform_enabled_def
    by (simp only: enabled_entries map_fst_ENABLED_PLATFORMS)
qed

lemma keys_orderedPlatforms:
  "map fst (orderedPlatforms cfg pf) = filter (platform_enabled cfg) declared_order"
  by (simp add: orderedPlatforms_eq comp_def)

lemma platform_enabled_declared: "platform_enabled cfg k \<Longrightarrow> k \<in> set declared_order"
proof -
  assume "platform_enabled cfg k"
  then have "(k, True) \<in> set (ENABLED_PLATFORMS cfg)"
    unfolding platform_enabled_def by (rule map_of_SomeD)
  then have "k \<in> set (map fst (ENABLED_PLATFORMS cfg))"
    by force
  then show ?thesis
    by (simp only: map_fst_ENABLED_PLATFORMS)
qed

lemma map_of_orderedPlatforms:
  "map_of (orderedPlatforms cfg pf) k =
     (if platform_enabled cfg k
      then Some (case pf k of Some entry \<Rightarrow> PlatformFile entry | None \<Rightarrow> EmptyObject)
      else None)"
  using platform_enabled_declared [of cfg k]
  by (auto simp: orderedPlatforms_eq map_of_map_restrict restrict_map_def)

lemma fst_callback_start:
  "fst (callback_start cfg e f (pf, w, waiting)) =
     (if platform_enabled cfg (determinePlatform (name f)) \<and> \<not> endsWith (name f) ''.sig''
         \<and> pf (determinePlatform (name f)) = None
      then pf(determinePlatform (name f) \<mapsto> \<lparr>signature = JString [], url = file_url f\<rparr>)
      else pf)"
  by (simp add: callback_start_def Let_def split: option.split prod.split)


lemma callback_start_None_iff:
  "fst (callback_start cfg e f st) k = None \<longleftrightarrow>
     fst st k = None \<and> \<not> (determinePlatform (name f) = k \<and> platform_enabled cfg k
        \<and> \<not> endsWith (name f) ''.sig'')"
proof (cases st)
  case (fields pf w waiting)
  then show ?thesis by (auto simp: fst_callback_start)
qed

lemma callbacks_start_None_iff:
  "fst (callbacks_start cfg e fs st) k = None \<longleftrightarrow>
     fst st k = None \<and> (\<forall>f\<in>set fs. \<not> (determinePlatform (name f) = k \<and> platform_enabled cfg k
        \<and> \<not> endsWith (name f) ''.sig''))"
  by (induction fs arbitrary: st) (auto simp: callback_start_None_iff)


text \<open>An answer changes the entry of the platform of its request, and no other.\<close>

lemma fst_callback_resume:
  "fst (callback_resume up c p (pf, e)) =
     (case pf (flight_key p) of
        Some entry \<Rightarrow> pf(flight_key p \<mapsto> entry
            \<lparr>signature := fst (fetchSignature_resume up c (flight_url p) (flight_token p) e)\<rparr>)
      | None \<Rightarrow> pf)"
  by (simp add: callback_resume_def split: prod.split option.split)

lemma callback_resume_None_iff:
  "fst (callback_resume up c p st) k = None \<longleftrightarrow> fst st k = None"
proof (cases st)
  case (Pair pf e)
  then show ?thesis by (auto simp: fst_callback_resume split: option.split)
qed

lemma callbacks_resume_None_iff:
  "fst (callbacks_resume up c ps st) k = None \<longleftrightarrow> fst st k = None"
  by (induction ps arbitrary: st) (simp_all add: callback_resume_None_iff)

lemma process_files_None_iff:
  "fst (process_files cfg up fs e w) k = None \<longleftrightarrow>
     (\<forall>f\<in>set fs. \<not> (determinePlatform (name f) = k \<and> platform_enabled cfg k
        \<and> \<not> endsWith (name f) ''.sig''))"
proof -
  obtain reg w' waiting where s: "callbacks_start cfg e fs (Map.empty, w, []) = (reg, w', waiting)"
    by (cases "callbacks_start cfg e fs (Map.empty, w, [])")
  have "fst (process_files cfg up fs e w)
          = fst (callbacks_resume up (cached w') (arrival_order up waiting) (reg, e))"
    by (simp add: process_files_def s split: prod.split)
  then have "fst (process_files cfg up fs e w) k = None \<longleftrightarrow> reg k = None"
    by (simp add: callbacks_resume_None_iff)
  also have "reg k = None \<longleftrightarrow> fst (callbacks_start cfg e fs (Map.empty, w, [])) k = None"
    by (simp add: s)
  finally show ?thesis
    by (simp add: callbacks_start_None_iff)
qed

lemma process_files_no_files: "process_files cfg up [] e w = (Map.empty, e, w)"
  by (simp add: process_files_def arrival_order_def)

lemma build_manifest_result:
  "fst (build_manifest cfg up r fs e w) = Inr (Manifest
     \<lparr>version = tag_name r, release_notes = ''A new version is available'',
      pub_date = published_at r,
      platforms = orderedPlatforms cfg (fst (process_files cfg up fs e w))\<rparr>)"
  by (simp add: build_manifest_def Let_def split: prod.splits)

lemma build_manifest_no_files:
  "fst (build_manifest cfg up r [] e w) = Inr (Manifest
     \<lparr>version = tag_name r, release_notes = ''A new version is available'',
      pub_date = published_at r,
      platforms = map (\<lambda>k. (k, EmptyObject)) (filter (platform_enabled cfg) declared_order)\<rparr>)"
  by (simp add: build_manifest_result process_files_no_files orderedPlatforms_eq)

text \<open>
  On a fresh directory listing the pipeline's result is the manifest built from the
  listed files.
\<close>

lemma fetchGitHubData_fresh_listing:
  assumes "releases_api up (or_empty (releases etagData)) = Response st et (latestRelease # older)"
    and "200 \<le> st" "st < 300"
    and "contents_api up (tag_name latestRelease)
           (token_of (archives etagData) (tag_name latestRelease)) = Response st2 et2 names"
    and "200 \<le> st2" "st2 < 300"
  shows "\<exists>e' w'. fetchGitHubData cfg up etagData w =
           build_manifest cfg up latestRelease
             (map (archive_file cfg (tag_name latestRelease)) names) e' w'"
  using assms
  by (simp add: fetchGitHubData_def Let_def axios_get_Response validateStatus_def) blast

text \<open>
  Claim C4. For every list of files and every configuration, the manifest built has as
  the keys of \<open>platforms\<close> exactly the enabled platforms, in the declared order; an enabled
  platform gets the empty object exactly when no file other than a signature is
  classified to it; a disabled platform is not a key.
\<close>

theorem C4_platform_keys:
  "\<exists>m. fst (build_manifest cfg up r fs e w) = Inr (Manifest m)
     \<and> map fst (platforms m) = filter (platform_enabled cfg)
          [''linux-x86_64'', ''windows-x86_64'', ''windows-aarch64'',
           ''darwin-x86_64'', ''darwin-aarch64'']
     \<and> (\<forall>k. platform_enabled cfg k \<longrightarrow>
           (map_of (platforms m) k = Some EmptyObject \<longleftrightarrow>
              (\<forall>f\<in>set fs. determinePlatform (name f) = k \<longrightarrow> endsWith (name f) ''.sig'')))
     \<and> (\<forall>k. \<not> platform_enabled cfg k \<longrightarrow> k \<notin> set (map fst (platforms m)))"
proof -
  let ?pf = "fst (process_files cfg up fs e w)"
  let ?m = "\<lparr>version = tag_name r, release_notes = ''A new version is available'',
      pub_date = published_at r, platforms = orderedPlatforms cfg ?pf\<rparr>"
  have 1: "fst (build_manifest cfg up r fs e w) = Inr (Manifest ?m)"
    by (rule build_manifest_result)
  have 2: "map fst (platforms ?m) = filter (platform_enabled cfg)
          [''linux-x86_64'', ''windows-x86_64'', ''windows-aarch64'',
           ''darwin-x86_64'', ''darwin-aarch64'']"
    using keys_orderedPlatforms [of cfg ?pf] by (simp add: declared_order_def)
  have 3: "map_of (platforms ?m) k = Some EmptyObject \<longleftrightarrow>
              (\<forall>f\<in>set fs. determinePlatform (name f) = k \<longrightarrow> endsWith (name f) ''.sig'')"
    if "platform_enabled cfg k" for k
  proof -
    have "map_of (platforms ?m) k = Some EmptyObject \<longleftrightarrow> ?pf k = None"
      using that by (simp add: map_of_orderedPlatforms split: option.splits)
    also have "\<dots> \<longleftrightarrow> (\<forall>f\<in>set fs. determinePlatform (name f) = k \<longrightarrow> endsWith (name f) ''.sig'')"
      using that by (auto simp: process_files_None_iff)
    finally show ?thesis .
  qed
  have 4: "k \<notin> set (map fst (platforms ?m))" if "\<not> platform_enabled cfg k" for k
    using that keys_orderedPlatforms [of cfg ?pf] by simp
  from 1 2 3 4 show ?thesis by blast
qed

theorem C4_platform_keys_witness:
  "\<exists>m. fst (build_manifest example_config example_upstream example_release
            [base_file, sig_file] no_validators cold_start) = Inr (Manifest m)
     \<and> map fst (platforms m)
         = [''linux-x86_64'', ''windows-x86_64'', ''darwin-x86_64'', ''darwin-aarch64'']
     \<and> map_of (platforms m) ''linux-x86_64'' = Some EmptyObject
     \<and> map_of (platforms m) ''windows-x86_64'' \<noteq> Some EmptyObject
     \<and> ''windows-aarch64'' \<notin> set (map fst (platforms m))"
proof -
  let ?fs = "[base_file, sig_file]"
  obtain m where m: "fst (build_manifest example_config example_upstream example_release
            ?fs no_validators cold_start) = Inr (Manifest m)"
    and keys: "map fst (platforms m) = filter (platform_enabled example_config)
          [''linux-x86_64'', ''windows-x86_64'', ''windows-aarch64'',
           ''darwin-x86_64'', ''darwin-aarch64'']"
    and empty: "\<forall>k. platform_enabled example_config k \<longrightarrow>
           (map_of (platforms m) k = Some EmptyObject \<longleftrightarrow>
              (\<forall>f\<in>set ?fs. determinePlatform (name f) = k \<longrightarrow> endsWith (name f) ''.sig''))"
    and disabled: "\<forall>k. \<not> platform_enabled example_config k \<longrightarrow> k \<notin> set (map fst (platforms m))"
    using C4_platform_keys [of example_config example_upstream example_release ?fs
        no_validators cold_start]
    by blast
  have en: "filter (platform_enabled example_config)
          [''linux-x86_64'', ''windows-x86_64'', ''windows-aarch64'',
           ''darwin-x86_64'', ''darwin-aarch64'']
        = [''linux-x86_64'', ''windows-x86_64'', ''darwin-x86_64'', ''darwin-aarch64'']"
    by code_simp
  have l: "platform_enabled example_config ''linux-x86_64''"
    by code_simp
  have lf: "\<forall>f\<in>set ?fs. determinePlatform (name f) = ''linux-x86_64'' \<longrightarrow> endsWith (name f) ''.sig''"
    by code_simp
  have x: "platform_enabled example_config ''windows-x86_64''"
    by code_simp
  have xf: "\<not> (\<forall>f\<in>set ?fs. determinePlatform (name f) = ''windows-x86_64''
               \<longrightarrow> endsWith (name f) ''.sig'')"
    by code_simp
  have a: "\<not> platform_enabled example_config ''windows-aarch64''"
    by code_simp
  from empty l lf have 1: "map_of (platforms m) ''linux-x86_64'' = Some EmptyObject"
    by blast
  from empty x xf have 2: "map_of (platforms m) ''windows-x86_64'' \<noteq> Some EmptyObject"
    by blast
  from disabled a have 3: "''windows-aarch64'' \<notin> set (map fst (platforms m))"
    by blast
  from m keys en 1 2 3 show ?thesis
    by metis
qed

text \<open>
  Claim C3. When the release list is fresh and the directory listing of the latest tag is
  answered 304: if the cached manifest has the latest tag as its version, it is returned
  as it is; otherwise the pipeline goes on with no files and returns a manifest with the
  latest tag as version in which every enabled platform has the empty object.
\<close>

theorem C3_archive_listing_304:
  assumes "releases_api up (or_empty (releases etagData)) = Response st et (latestRelease # older)"
    and "200 \<le> st" and "st < 300"
    and "contents_api up (tag_name latestRelease)
           (token_of (archives etagData) (tag_name latestRelease)) = Response 304 et2 names"
  shows "(\<forall>m. cached w = Manifest m \<and> version m = tag_name latestRelease \<longrightarrow>
            fst (fetchGitHubData cfg up etagData w) = Inr (Manifest m))
       \<and> ((\<forall>m. cached w = Manifest m \<longrightarrow> version m \<noteq> tag_name latestRelease) \<longrightarrow>
            fst (fetchGitHubData cfg up etagData w) = Inr (Manifest
              \<lparr>version = tag_name latestRelease,
               release_notes = ''A new version is available'',
               pub_date = published_at latestRelease,
               platforms = map (\<lambda>k. (k, EmptyObject))
                 (filter (platform_enabled cfg)
                    [''linux-x86_64'', ''windows-x86_64'', ''windows-aarch64'',
                     ''darwin-x86_64'', ''darwin-aarch64''])\<rparr>))"
proof -
  have f: "fst (fetchGitHubData cfg up etagData w) =
           (case cached w of
              Manifest m \<Rightarrow> if version m = tag_name latestRelease then Inr (Manifest m)
                            else fst (build_manifest cfg up latestRelease []
                              (etagData\<lparr>releases := et,
                                 archives := Some (or_object (archives etagData)),
                                 signatures := Some (or_object (signatures etagData))\<rparr>)
                              (log_call (ContentsCall (tag_name latestRelease)
                                  (token_of (archives etagData) (tag_name latestRelease)))
                                (log_call (ReleasesCall (or_empty (releases etagData))) w)))
            | EmptyCache \<Rightarrow> fst (build_manifest cfg up latestRelease []
                              (etagData\<lparr>releases := et,
                                 archives := Some (or_object (archives etagData)),
                                 signatures := Some (or_object (signatures etagData))\<rparr>)
                              (log_call (ContentsCall (tag_name latestRelease)
                                  (token_of (archives etagData) (tag_name latestRelease)))
                                (log_call (ReleasesCall (or_empty (releases etagData))) w))))"
    using assms
    by (simp add: fetchGitHubData_def Let_def axios_get_Response validateStatus_def
        split: cache_data.split)
  show ?thesis
    unfolding f
    by (cases "cached w") (simp_all add: build_manifest_no_files declared_order_def)
qed

theorem C3_archive_listing_304_witness:
  "releases_api example_upstream (or_empty (releases stale_release_validators))
     = Response 200 (Some ''r1'') (example_release # [])
   \<and> (200::nat) \<le> 200 \<and> (200::nat) < 300
   \<and> contents_api example_upstream (tag_name example_release)
        (token_of (archives stale_release_validators) (tag_name example_release))
       = Response 304 None []
   \<and> version (case cached warm_start of Manifest m \<Rightarrow> m) = tag_name example_release
   \<and> fst (fetchGitHubData example_config example_upstream stale_release_validators warm_start)
       = Inr (cached warm_start)
   \<and> fst (fetchGitHubData example_config example_upstream stale_release_validators cold_start)
       = Inr (Manifest
              \<lparr>version = ''v1.0.0'',
               release_notes = ''A new version is available'',
               pub_date = ''2024-01-01T00:00:00Z'',
               platforms = [(''linux-x86_64'', EmptyObject), (''windows-x86_64'', EmptyObject),
                  (''darwin-x86_64'', EmptyObject), (''darwin-aarch64'', EmptyObject)]\<rparr>)"
proof -
  have r: "releases_api example_upstream (or_empty (releases stale_release_validators))
     = Response 200 (Some ''r1'') (example_release # [])"
    by (simp add: example_upstream_def stale_release_validators_def or_empty_def)
  have s: "(200::nat) \<le> 200" "(200::nat) < 300"
    by simp_all
  have c: "contents_api example_upstream (tag_name example_release)
        (token_of (archives stale_release_validators) (tag_name example_release))
       = Response 304 None []"
    by (simp add: example_upstream_def stale_release_validators_def example_release_def
        token_of_def or_empty_def)
  obtain m where m: "cached warm_start = Manifest m" "version m = tag_name example_release"
  proof (cases "cached warm_start")
    case EmptyCache
    moreover have "cached warm_start \<noteq> EmptyCache" by code_simp
    ultimately show ?thesis by simp
  next
    case (Manifest m)
    moreover have "version (case cached warm_start of Manifest m \<Rightarrow> m) = tag_name example_release"
      by code_simp
    ultimately show ?thesis using that by simp
  qed
  have e: "\<forall>m. cached cold_start = Manifest m \<longrightarrow> version m \<noteq> tag_name example_release"
    by (simp add: cached_def cold_start_def)
  have en: "filter (platform_enabled example_config)
          [''linux-x86_64'', ''windows-x86_64'', ''windows-aarch64'',
           ''darwin-x86_64'', ''darwin-aarch64'']
        = [''linux-x86_64'', ''windows-x86_64'', ''darwin-x86_64'', ''darwin-aarch64'']"
    by code_simp
  from C3_archive_listing_304 [OF r s c, of warm_start example_config] m
  have 1: "fst (fetchGitHubData example_config example_upstream stale_release_validators
      warm_start) = Inr (cached warm_start)"
    by simp
  from C3_archive_listing_304 [OF r s c, of cold_start example_config] e
  have "fst (fetchGitHubData example_config example_upstream stale_release_validators
      cold_start) = Inr (Manifest
              \<lparr>version = tag_name example_release,
               release_notes = ''A new version is available'',
               pub_date = published_at example_release,
               platforms = map (\<lambda>k. (k, EmptyObject))
                 (filter (platform_enabled example_config)
                    [''linux-x86_64'', ''windows-x86_64'', ''windows-aarch64'',
                     ''darwin-x86_64'', ''darwin-aarch64''])\<rparr>)"
    by blast
  then have 2: "fst (fetchGitHubData example_config example_upstream stale_release_validators
      cold_start) = Inr (Manifest
              \<lparr>version = ''v1.0.0'',
               release_notes = ''A new version is available'',
               pub_date = ''2024-01-01T00:00:00Z'',
               platforms = [(''linux-x86_64'', EmptyObject), (''windows-x86_64'', EmptyObject),
                  (''darwin-x86_64'', EmptyObject), (''darwin-aarch64'', EmptyObject)]\<rparr>)"
    unfolding en by (simp add: example_release_def)
  from r s c m 1 2 show ?thesis by simp
qed

section \<open>Signature pairing\<close>





text \<open>
  A signature file after its base asset: the answer to its request is what the entry
  gets as signature.
\<close>

lemma callback_resume_attached:
  "pf (flight_key p) = Some a \<Longrightarrow>
   fst (callback_resume up c p (pf, e)) (flight_key p)
     = Some (a\<lparr>signature := fst (fetchSignature_resume up c (flight_url p) (flight_token p) e)\<rparr>)"
  by (simp add: fst_callback_resume)

text \<open>
  With the base asset listed first and its signature file after it, the entry gets what
  \<^verbatim>\<open>fetchSignature\<close> returns for the signature file.
\<close>

lemma base_then_signature_attached:
  assumes "platform_enabled cfg (determinePlatform (name b))"
    and "\<not> endsWith (name b) ''.sig''" and "endsWith (name s) ''.sig''"
    and "determinePlatform (name s) = determinePlatform (name b)"
  shows "fst (process_files cfg up [b, s] e w) (determinePlatform (name b))
           = Some \<lparr>signature = fst (fetchSignature up (file_url s) e w), url = file_url b\<rparr>"
  using assms
  by (simp add: process_files_def callback_start_def fetchSignature_send_def
      callback_resume_def fetchSignature_def arrival_order_def Let_def split: prod.split)

text \<open>
  With two signature files of one platform after the base asset, the entry keeps the
  signature whose answer arrives last.
\<close>

lemma last_answer_wins:
  "platform_descriptor
        (fst (build_manifest example_config example_upstream example_release
               [base_file, sig_file, other_sig_file] no_validators cold_start)) ''windows-x86_64''
       = Some (PlatformFile
           \<lparr>signature = JString ''signature in Setup-1.0.0.msi.sig'',
            url = ''https://github.com/owner/archives/raw/main/v1.0.0/App-1.0.0.msi''\<rparr>)
   \<and> platform_descriptor
        (fst (build_manifest example_config slow_signature_upstream example_release
               [base_file, sig_file, other_sig_file] no_validators cold_start)) ''windows-x86_64''
       = Some (PlatformFile
           \<lparr>signature = JString ''signature in App-1.0.0.msi.sig'',
            url = ''https://github.com/owner/archives/raw/main/v1.0.0/App-1.0.0.msi''\<rparr>)"
  by code_simp













section \<open>Properties of the request handlers\<close>

lemma callback_start_calls:
  "\<exists>rest. calls (fst (snd (callback_start cfg e f st))) = calls (fst (snd st)) @ rest"
proof (cases st)
  case (fields pf w waiting)
  then show ?thesis
    by (auto simp: callback_start_def fetchSignature_send_def Let_def
        split: option.splits prod.splits)
qed

lemma callbacks_start_calls:
  "\<exists>rest. calls (fst (snd (callbacks_start cfg e fs st))) = calls (fst (snd st)) @ rest"
proof (induction fs arbitrary: st)
  case Nil
  then show ?case by simp
next
  case (Cons f fs)
  obtain r1 where 1: "calls (fst (snd (callback_start cfg e f st))) = calls (fst (snd st)) @ r1"
    using callback_start_calls by blast
  obtain r2 where 2: "calls (fst (snd (callbacks_start cfg e fs (callback_start cfg e f st))))
      = calls (fst (snd (callback_start cfg e f st))) @ r2"
    using Cons.IH by blast
  from 1 2 show ?case by simp
qed

lemma process_files_calls:
  "\<exists>rest. calls (snd (snd (process_files cfg up fs e w))) = calls w @ rest"
proof -
  obtain reg w' waiting where s: "callbacks_start cfg e fs (Map.empty, w, []) = (reg, w', waiting)"
    by (cases "callbacks_start cfg e fs (Map.empty, w, [])")
  obtain rest where "calls w' = calls w @ rest"
    using callbacks_start_calls [of cfg e fs "(Map.empty, w, [])"] s by auto
  moreover have "snd (snd (process_files cfg up fs e w)) = w'"
    by (simp add: process_files_def s split: prod.split)
  ultimately show ?thesis by simp
qed

lemma build_manifest_calls:
  "\<exists>rest. calls (snd (snd (build_manifest cfg up r fs e w))) = calls w @ rest"
proof -
  obtain rest where "calls (snd (snd (process_files cfg up fs e w))) = calls w @ rest"
    using process_files_calls by blast
  then show ?thesis
    by (auto simp: build_manifest_def Let_def split: prod.splits)
qed

lemma build_manifest_calls_after:
  assumes "calls w' = calls w @ c # x"
  shows "\<exists>rest. calls (snd (snd (build_manifest cfg up r fs e' w'))) = calls w @ c # rest"
proof -
  obtain rest where "calls (snd (snd (build_manifest cfg up r fs e' w'))) = calls w' @ rest"
    using build_manifest_calls by blast
  with assms show ?thesis by simp
qed

text \<open>Every run of the pipeline starts with the release-list request.\<close>

lemma fetchGitHubData_calls:
  "\<exists>rest. calls (snd (snd (fetchGitHubData cfg up e w)))
      = calls w @ ReleasesCall (or_empty (releases e)) # rest"
  by (auto simp: fetchGitHubData_def Let_def split: sum.splits list.splits cache_data.splits
        intro!: build_manifest_calls_after)

lemma sync_load_etagData [simp]:
  "sync_etagData (load_etagData w) (log_call c w) = log_call c w"
  by (cases "mem_etagData w") (simp_all add: sync_etagData_def load_etagData_def log_call_def)

lemma calls_sync_etagData [simp]: "calls (sync_etagData e w) = calls w"
  by (simp add: sync_etagData_def)

lemma app_get_reply:
  "fst (app_get cfg fresh up req w) =
     Inr (res_json fresh req (case fst (fetchGitHubData cfg up (load_etagData w) w) of
                      Inr d \<Rightarrow> d | Inl err \<Rightarrow> cached w))"
  by (simp add: app_get_def Let_def split: prod.split sum.split)

text \<open>
  The handler of \<^verbatim>\<open>src/index.ts\<close> has no interval: every request runs the pipeline, so
  every request makes the release-list request.
\<close>

lemma app_get_calls:
  "\<exists>rest. calls (snd (app_get cfg fresh up req w))
      = calls w @ ReleasesCall (or_empty (releases (load_etagData w))) # rest"
proof -
  obtain r e' w' where f: "fetchGitHubData cfg up (load_etagData w) w = (r, e', w')"
    by (cases "fetchGitHubData cfg up (load_etagData w) w")
  obtain rest where "calls w' = calls w @ ReleasesCall (or_empty (releases (load_etagData w))) # rest"
    using fetchGitHubData_calls [of cfg up "load_etagData w" w] f by auto
  with f show ?thesis
    by (cases r) (simp_all add: app_get_def Let_def)
qed

lemma res_json_status: "status (res_json fresh req d) = 200 \<or> status (res_json fresh req d) = 304"
  by (simp add: res_json_def)

text \<open>
  Claim C8, as the code has it. Whatever the upstream does, no error leaves the handler:
  on every path it answers through \<^verbatim>\<open>res.json\<close> with the best manifest it has, which is
  the result of the pipeline when it succeeds and the prior cached value when it throws.
  That answer has status 200 and the manifest as body, unless the request is fresh for
  that body, when it has status 304 and no body. When the release-list request fails (no
  response, or a status outside 2xx and 304, such as 403 or 5xx), the manifest answered
  is the prior cached value and nothing but the log of requests changes; in particular
  a 403 with a non-empty cache leaves the cache unchanged.
\<close>

theorem C8_no_error_status:
  "fst (app_get cfg fresh up req w) =
       Inr (res_json fresh req (case fst (fetchGitHubData cfg up (load_etagData w) w) of
                        Inr d \<Rightarrow> d | Inl err \<Rightarrow> cached w))
   \<and> (\<exists>r. fst (app_get cfg fresh up req w) = Inr r \<and> (status r = 200 \<or> status r = 304))
   \<and> (\<not> fresh req (case fst (fetchGitHubData cfg up (load_etagData w) w) of
                        Inr d \<Rightarrow> d | Inl err \<Rightarrow> cached w) \<longrightarrow>
        fst (app_get cfg fresh up req w) =
          Inr \<lparr>status = 200,
               body = Some (case fst (fetchGitHubData cfg up (load_etagData w) w) of
                        Inr d \<Rightarrow> d | Inl err \<Rightarrow> cached w)\<rparr>)
   \<and> (\<forall>err. axios_get (releases_api up (or_empty (releases (load_etagData w)))) = Inl err \<longrightarrow>
          app_get cfg fresh up req w =
            (Inr (res_json fresh req (cached w)),
             log_call (ReleasesCall (or_empty (releases (load_etagData w)))) w))
   \<and> (\<forall>et d. releases_api up (or_empty (releases (load_etagData w))) = Response 403 et d
          \<and> \<not> cache_is_empty (cached w) \<longrightarrow>
          fst (app_get cfg fresh up req w) = Inr (res_json fresh req (cached w))
          \<and> cached (snd (app_get cfg fresh up req w)) = cached w
          \<and> CACHE_FILE (snd (app_get cfg fresh up req w)) = CACHE_FILE w
          \<and> ETAG_FILE (snd (app_get cfg fresh up req w)) = ETAG_FILE w)"
proof -
  let ?best = "case fst (fetchGitHubData cfg up (load_etagData w) w) of
                        Inr d \<Rightarrow> d | Inl err \<Rightarrow> cached w"
  have a: "fst (app_get cfg fresh up req w) = Inr (res_json fresh req ?best)"
    by (rule app_get_reply)
  have b: "\<exists>r. fst (app_get cfg fresh up req w) = Inr r \<and> (status r = 200 \<or> status r = 304)"
    using a res_json_status [of fresh req ?best] by simp
  have n: "fst (app_get cfg fresh up req w) = Inr \<lparr>status = 200, body = Some ?best\<rparr>"
    if "\<not> fresh req ?best"
    using a that by (simp add: res_json_def)
  have c: "app_get cfg fresh up req w =
            (Inr (res_json fresh req (cached w)),
             log_call (ReleasesCall (or_empty (releases (load_etagData w)))) w)"
    if "axios_get (releases_api up (or_empty (releases (load_etagData w)))) = Inl err" for err
    using fetchGitHubData_release_failure [OF that, of cfg w]
    by (simp add: app_get_def Let_def)
  have d: "fst (app_get cfg fresh up req w) = Inr (res_json fresh req (cached w))
          \<and> cached (snd (app_get cfg fresh up req w)) = cached w
          \<and> CACHE_FILE (snd (app_get cfg fresh up req w)) = CACHE_FILE w
          \<and> ETAG_FILE (snd (app_get cfg fresh up req w)) = ETAG_FILE w"
    if "releases_api up (or_empty (releases (load_etagData w))) = Response 403 et d" for et d
  proof -
    have "axios_get (releases_api up (or_empty (releases (load_etagData w))))
            = Inl (AxiosError (Some 403))"
      using that by (simp add: axios_get_Response validateStatus_def)
    from c [OF this] show ?thesis by simp
  qed
  from a b n c d show ?thesis by blast
qed

theorem C8_no_error_status_witness:
  "releases_api rate_limited_upstream (or_empty (releases (load_etagData warm_start)))
     = Response 403 None []
   \<and> \<not> cache_is_empty (cached warm_start)
   \<and> axios_get (releases_api rate_limited_upstream (or_empty (releases (load_etagData warm_start))))
       = Inl (AxiosError (Some 403))
   \<and> \<not> never_fresh plain_request (cached warm_start)
   \<and> fst (app_get example_config never_fresh rate_limited_upstream plain_request warm_start)
       = Inr \<lparr>status = 200, body = Some (cached warm_start)\<rparr>
   \<and> cached (snd (app_get example_config never_fresh rate_limited_upstream plain_request
        warm_start)) = cached warm_start
   \<and> app_get example_config never_fresh rate_limited_upstream plain_request warm_start =
        (Inr (res_json never_fresh plain_request (cached warm_start)),
         log_call (ReleasesCall (or_empty (releases (load_etagData warm_start)))) warm_start)"
proof -
  have r: "releases_api rate_limited_upstream (or_empty (releases (load_etagData warm_start)))
     = Response 403 None []"
    by (simp add: rate_limited_upstream_def)
  have n: "\<not> cache_is_empty (cached warm_start)"
    by code_simp
  have x: "axios_get (releases_api rate_limited_upstream
      (or_empty (releases (load_etagData warm_start)))) = Inl (AxiosError (Some 403))"
    by (simp add: r axios_get_def validateStatus_def)
  have nf: "\<not> never_fresh plain_request (cached warm_start)"
    by (simp add: never_fresh_def)
  note inst = C8_no_error_status [where cfg = example_config and fresh = never_fresh
      and up = rate_limited_upstream and req = plain_request and w = warm_start]
  from inst r n have 1: "fst (app_get example_config never_fresh rate_limited_upstream
        plain_request warm_start) = Inr (res_json never_fresh plain_request (cached warm_start))
     \<and> cached (snd (app_get example_config never_fresh rate_limited_upstream plain_request
        warm_start)) = cached warm_start"
    by blast
  then have ok: "fst (app_get example_config never_fresh rate_limited_upstream
        plain_request warm_start) = Inr \<lparr>status = 200, body = Some (cached warm_start)\<rparr>"
    by (simp add: res_json_def never_fresh_def)
  from inst x have 2: "app_get example_config never_fresh rate_limited_upstream plain_request
        warm_start =
        (Inr (res_json never_fresh plain_request (cached warm_start)),
         log_call (ReleasesCall (or_empty (releases (load_etagData warm_start)))) warm_start)"
    by blast
  from r n x nf 1 ok 2 show ?thesis by blast
qed

text \<open>
  The claim as it is written fails: a client that sends back the entity tag of the
  manifest gets status 304 and no body, when the upstream answers 403 and when it
  answers normally.
\<close>

theorem C8_status_304_counterexample:
  "fst (app_get example_config matching_tag rate_limited_upstream conditional_request warm_start)
     = Inr \<lparr>status = 304, body = None\<rparr>
   \<and> fst (app_get example_config matching_tag example_upstream conditional_request warm_start)
     = Inr \<lparr>status = 304, body = None\<rparr>"
  by code_simp

text \<open>The variant with the interval answers through \<^verbatim>\<open>res.json\<close> on every path as well.\<close>

lemma app_get_interval_reply:
  "\<exists>d. fst (app_get_interval cfg fresh up req now w) = Inr (res_json fresh req d)"
  by (auto simp: app_get_interval_def Let_def split: prod.split sum.split)

lemma app_get_interval_fetches:
  assumes "\<not> trust_cache (cached w) now (last_fetch (load_etagData w))"
  shows "\<exists>rest. calls (snd (app_get_interval cfg fresh up req now w))
            = calls w @ ReleasesCall (or_empty (releases (load_etagData w))) # rest"
proof -
  obtain r e' w' where f: "fetchGitHubData cfg up (load_etagData w) w = (r, e', w')"
    by (cases "fetchGitHubData cfg up (load_etagData w) w")
  obtain rest where "calls w' = calls w @ ReleasesCall (or_empty (releases (load_etagData w))) # rest"
    using fetchGitHubData_calls [of cfg up "load_etagData w" w] f by auto
  with assms f show ?thesis
    by (cases r) (simp_all add: app_get_interval_def Let_def)
qed

text \<open>
  Claim C1. In the server variant with \<open>MIN_FETCH_INTERVAL\<close> (five minutes, in
  milliseconds): a request that finds a cached manifest with a version while
  \<open>now - lastFetchTime < MIN_FETCH_INTERVAL\<close> is answered at once, by \<^verbatim>\<open>res.json\<close> of the
  cached manifest, and changes nothing, so it makes no upstream request; a request that
  finds no version in the cache (absent or empty cache) or finds the interval elapsed
  runs the pipeline, which starts with the release-list request.
\<close>

theorem C1_freshness_policy:
  "MIN_FETCH_INTERVAL = 5 * 60 * 1000
   \<and> (has_version (cached w) \<and> now - last_fetch (load_etagData w) < MIN_FETCH_INTERVAL \<longrightarrow>
        app_get_interval cfg fresh up req now w = (Inr (res_json fresh req (cached w)), w))
   \<and> (\<not> has_version (cached w) \<or> MIN_FETCH_INTERVAL \<le> now - last_fetch (load_etagData w) \<longrightarrow>
        (\<exists>rest. calls (snd (app_get_interval cfg fresh up req now w))
            = calls w @ ReleasesCall (or_empty (releases (load_etagData w))) # rest))"
proof -
  have a: "app_get_interval cfg fresh up req now w = (Inr (res_json fresh req (cached w)), w)"
    if "has_version (cached w) \<and> now - last_fetch (load_etagData w) < MIN_FETCH_INTERVAL"
    using that by (simp add: app_get_interval_def Let_def trust_cache_def)
  have b: "\<exists>rest. calls (snd (app_get_interval cfg fresh up req now w))
            = calls w @ ReleasesCall (or_empty (releases (load_etagData w))) # rest"
    if "\<not> has_version (cached w) \<or> MIN_FETCH_INTERVAL \<le> now - last_fetch (load_etagData w)"
    using that by (intro app_get_interval_fetches) (auto simp: trust_cache_def)
  from a b show ?thesis by (simp add: MIN_FETCH_INTERVAL_def)
qed

text \<open>
  The scenario of the claim: from first boot a request at time 0 fetches; from the state
  it leaves, a request at 60 s makes no request and is answered with the cached
  manifest, and one at 301 s fetches again.
\<close>

theorem C1_freshness_policy_witness:
  "\<not> has_version (cached cold_start)
   \<and> (\<exists>rest. calls (snd (app_get_interval example_config never_fresh example_upstream
                 plain_request 0 cold_start))
         = calls cold_start @ ReleasesCall [] # rest)
   \<and> has_version (cached warm_start)
   \<and> 60000 - last_fetch (load_etagData warm_start) < MIN_FETCH_INTERVAL
   \<and> app_get_interval example_config never_fresh example_upstream plain_request 60000 warm_start
       = (Inr \<lparr>status = 200, body = Some (cached warm_start)\<rparr>, warm_start)
   \<and> MIN_FETCH_INTERVAL \<le> 301000 - last_fetch (load_etagData warm_start)
   \<and> (\<exists>rest. calls (snd (app_get_interval example_config never_fresh example_upstream
                 plain_request 301000 warm_start))
         = calls warm_start @ ReleasesCall ''r1'' # rest)"
proof -
  have c: "\<not> has_version (cached cold_start)"
    by code_simp
  have ct: "or_empty (releases (load_etagData cold_start)) = []"
    by code_simp
  have v: "has_version (cached warm_start)"
    by code_simp
  have t1: "60000 - last_fetch (load_etagData warm_start) < MIN_FETCH_INTERVAL"
    by code_simp
  have t2: "MIN_FETCH_INTERVAL \<le> 301000 - last_fetch (load_etagData warm_start)"
    by code_simp
  have wt: "or_empty (releases (load_etagData warm_start)) = ''r1''"
    by code_simp
  from C1_freshness_policy [where w = cold_start and now = 0 and cfg = example_config
      and fresh = never_fresh and up = example_upstream and req = plain_request] c ct
  have 1: "\<exists>rest. calls (snd (app_get_interval example_config never_fresh example_upstream
                 plain_request 0 cold_start))
         = calls cold_start @ ReleasesCall [] # rest"
    by simp
  from C1_freshness_policy [where w = warm_start and now = 60000 and cfg = example_config
      and fresh = never_fresh and up = example_upstream and req = plain_request] v t1
  have "app_get_interval example_config never_fresh example_upstream plain_request 60000
          warm_start = (Inr (res_json never_fresh plain_request (cached warm_start)), warm_start)"
    by blast
  then have 2: "app_get_interval example_config never_fresh example_upstream plain_request
      60000 warm_start = (Inr \<lparr>status = 200, body = Some (cached warm_start)\<rparr>, warm_start)"
    by (simp add: res_json_def never_fresh_def)
  from C1_freshness_policy [where w = warm_start and now = 301000 and cfg = example_config
      and fresh = never_fresh and up = example_upstream and req = plain_request] t2 wt
  have 3: "\<exists>rest. calls (snd (app_get_interval example_config never_fresh example_upstream
                 plain_request 301000 warm_start))
         = calls warm_start @ ReleasesCall ''r1'' # rest"
    by simp
  from c 1 v t1 2 t2 3 show ?thesis by blast
qed

end
